theory Spec2Isabelle
  imports Main "HOL-Library.Sublist" "HOL-Library.Word"
begin

unbundle bit_operations_syntax

section \<open>Go values shared by the packages\<close>

text \<open>
  A Go \<open>error\<close> value is either produced by the standard library (JSON decoding,
  \<open>os.Stat\<close>, \<open>os/exec\<close>, \<open>context\<close>) or built by the repository with \<open>fmt.Errorf\<close>.
  A library error is kept as its kind and the fields the library filled in. Every
  \<open>fmt.Errorf\<close> call site of the repository has the shape "fixed text followed by at most
  one verb", so the value keeps the fixed text and the argument.
\<close>

type_synonym Duration = int \<comment> \<open>\<open>time.Duration\<close>: a count of nanoseconds\<close>

datatype lib_error_kind =
    SyntaxError             \<comment> \<open>\<open>*json.SyntaxError\<close>\<close>
  | UnmarshalTypeError      \<comment> \<open>\<open>*json.UnmarshalTypeError\<close>\<close>
  | PathError               \<comment> \<open>\<open>*fs.PathError\<close> of \<open>os.Stat\<close> or of starting a process\<close>
  | ExitError               \<comment> \<open>\<open>*exec.ExitError\<close>: the process ended unsuccessfully\<close>
  | ContextError            \<comment> \<open>\<open>context.Canceled\<close> or \<open>context.DeadlineExceeded\<close>\<close>
  | HomeDirError            \<comment> \<open>\<open>os.UserHomeDir\<close>: the home variable is not defined\<close>

datatype go_error =
    LibError lib_error_kind "string list"   \<comment> \<open>a standard library error and its fields\<close>
  | Errorf string                    \<comment> \<open>\<open>fmt.Errorf(text)\<close>\<close>
  | Errorf_s string string           \<comment> \<open>\<open>fmt.Errorf(text + "%s", s)\<close>\<close>
  | Errorf_v string Duration         \<comment> \<open>\<open>fmt.Errorf(text + "%v", d)\<close>, \<open>d\<close> a \<open>time.Duration\<close>\<close>
  | Errorf_w string go_error         \<comment> \<open>\<open>fmt.Errorf(text + "%w", err)\<close>\<close>

section \<open>Package claudetool: the \<open>output_iframe\<close> tool\<close>

subsection \<open>JSON input as \<open>encoding/json\<close> sees it\<close>

text \<open>
  A \<open>json.RawMessage\<close> is a byte string. The model keeps what the decoder makes of the
  bytes: either they are not one JSON value (\<open>Invalid\<close>, with the decoder's message), or
  they are the JSON value \<open>Valid v\<close>, strings already unquoted. Object members keep their
  order and their duplicates, since the decoder visits them in order.
\<close>

datatype json =
    JNull
  | JBool bool
  | JNumber string
  | JString string
  | JArray "json list"
  | JObject "(string \<times> json) list"

datatype RawMessage = Invalid string | Valid json

text \<open>
  The anonymous struct of \<open>outputIframeRun\<close>:
  \<^verbatim>\<open>var input struct { HTML string `json:"html"`; Title string `json:"title"` }\<close>
\<close>

record input =
  input_HTML :: string
  input_Title :: string

definition zero_input :: input where
  "zero_input = \<lparr>input_HTML = '''', input_Title = ''''\<rparr>"

text \<open>
  \<open>encoding/json\<close> matches an object key against the struct's field names first exactly and
  then case-insensitively. For the names \<open>html\<close> and \<open>title\<close> (ASCII letters, none of them
  \<open>k\<close> or \<open>s\<close>) the case-insensitive comparison is the ASCII one.
\<close>

definition lower_ascii :: "char \<Rightarrow> char" where
  "lower_ascii c =
     (if 65 \<le> (of_char c :: nat) \<and> (of_char c :: nat) \<le> 90
      then char_of ((of_char c :: nat) + 32) else c)"

definition foldName :: "string \<Rightarrow> string" where
  "foldName key = map lower_ascii key"

datatype field = Field_HTML | Field_Title

definition byExactName :: "string \<Rightarrow> field option" where
  "byExactName key =
     (if key = ''html'' then Some Field_HTML
      else if key = ''title'' then Some Field_Title
      else None)"

definition byFoldedName :: "string \<Rightarrow> field option" where
  "byFoldedName key = byExactName (foldName key)"

definition lookup_field :: "string \<Rightarrow> field option" where
  "lookup_field key =
     (case byExactName key of
        Some f \<Rightarrow> Some f
      | None \<Rightarrow> byFoldedName key)"

definition field_name :: "field \<Rightarrow> string" where
  "field_name f = (case f of Field_HTML \<Rightarrow> ''html'' | Field_Title \<Rightarrow> ''title'')"

text \<open>
  Decoding a JSON value into a Go \<open>string\<close>: a JSON string is stored, \<open>null\<close> leaves the
  field as it is, and any other value leaves the field as it is and reports an
  \<open>UnmarshalTypeError\<close>. The result is the new field value and the error to record.
\<close>

definition type_error :: "string \<Rightarrow> string \<Rightarrow> go_error" where
  \<comment> \<open>the fields \<open>Value\<close>, \<open>Field\<close> and \<open>Type\<close> of the \<open>UnmarshalTypeError\<close>\<close>
  "type_error what fname = LibError UnmarshalTypeError [what, fname, ''string'']"

fun decode_string :: "string \<Rightarrow> json \<Rightarrow> string \<Rightarrow> string \<times> go_error option" where
  "decode_string fname (JString s) old = (s, None)"
| "decode_string fname JNull old = (old, None)"
| "decode_string fname (JBool b) old = (old, Some (type_error ''bool'' fname))"
| "decode_string fname (JNumber n) old = (old, Some (type_error ''number'' fname))"
| "decode_string fname (JArray vs) old = (old, Some (type_error ''array'' fname))"
| "decode_string fname (JObject kvs) old = (old, Some (type_error ''object'' fname))"

text \<open>
  The decoder keeps the first error it meets (\<open>saveError\<close>) and goes on decoding.
\<close>

definition saveError :: "go_error option \<Rightarrow> go_error option \<Rightarrow> go_error option" where
  "saveError saved new = (case saved of Some e \<Rightarrow> Some e | None \<Rightarrow> new)"

definition decode_member ::
  "input \<times> go_error option \<Rightarrow> string \<times> json \<Rightarrow> input \<times> go_error option" where
  "decode_member st kv =
     (case lookup_field (fst kv) of
        None \<Rightarrow> st
      | Some Field_HTML \<Rightarrow>
          (let r = decode_string (field_name Field_HTML) (snd kv) (input_HTML (fst st))
           in ((fst st)\<lparr>input_HTML := fst r\<rparr>, saveError (snd st) (snd r)))
      | Some Field_Title \<Rightarrow>
          (let r = decode_string (field_name Field_Title) (snd kv) (input_Title (fst st))
           in ((fst st)\<lparr>input_Title := fst r\<rparr>, saveError (snd st) (snd r))))"

definition decode_object ::
  "(string \<times> json) list \<Rightarrow> input \<Rightarrow> input \<times> go_error option" where
  "decode_object kvs inp = foldl decode_member (inp, None) kvs"

text \<open>
  \<open>json.Unmarshal(m, &input)\<close>: the struct after the call and the error returned.
  Bytes that are not JSON give a \<open>SyntaxError\<close> and leave the struct alone; \<open>null\<close> decodes
  into a struct as a no-op; a value that is neither \<open>null\<close> nor an object is a type error.
\<close>

definition struct_error :: "string \<Rightarrow> go_error" where
  "struct_error what = LibError UnmarshalTypeError [what, '''', ''struct'']"

fun Unmarshal :: "RawMessage \<Rightarrow> input \<Rightarrow> input \<times> go_error option" where
  "Unmarshal (Invalid msg) inp = (inp, Some (LibError SyntaxError [msg]))"
| "Unmarshal (Valid JNull) inp = (inp, None)"
| "Unmarshal (Valid (JObject kvs)) inp = decode_object kvs inp"
| "Unmarshal (Valid (JBool b)) inp = (inp, Some (struct_error ''bool''))"
| "Unmarshal (Valid (JNumber n)) inp = (inp, Some (struct_error ''number''))"
| "Unmarshal (Valid (JString s)) inp = (inp, Some (struct_error ''string''))"
| "Unmarshal (Valid (JArray vs)) inp = (inp, Some (struct_error ''array''))"

subsection \<open>The result types of package llm\<close>

text \<open>
  Modelled from the spec: package \<open>llm\<close> (\<open>llm.Content\<close>, \<open>llm.ToolOut\<close>, \<open>llm.TextContent\<close>,
  \<open>llm.ErrorToolOut\<close>, \<open>llm.ErrorfToolOut\<close>) is not among the sources. The spec gives
  \<open>ToolOut\<close> the fields \<open>LLMContent\<close> (ordered content blocks), \<open>Display\<close> (a value for the
  UI) and an optional \<open>Error\<close>; the test reads \<open>LLMContent[0].Text\<close>. An error result
  carries the error and nothing else; \<open>TextContent s\<close> is the single text block \<open>s\<close>.
\<close>

datatype ContentType = ContentTypeText

record Content =
  ContentType :: ContentType
  Text :: string

record 'd ToolOut =
  LLMContent :: "Content list"
  Display :: "'d option"
  Error :: "go_error option"

definition TextContent :: "string \<Rightarrow> Content list" where
  "TextContent s = [\<lparr>ContentType = ContentTypeText, Text = s\<rparr>]"

definition ErrorToolOut :: "go_error \<Rightarrow> 'd ToolOut" where
  "ErrorToolOut err = \<lparr>LLMContent = [], Display = None, Error = Some err\<rparr>"

definition ErrorfToolOut :: "string \<Rightarrow> 'd ToolOut" where
  "ErrorfToolOut text = ErrorToolOut (Errorf text)"

subsection \<open>\<open>outputIframeRun\<close>\<close>

record OutputIframeDisplay =
  Type :: string
  HTML :: string
  Title :: string

definition outputIframeName :: string where
  "outputIframeName = ''output_iframe''"

definition outputIframeRun :: "RawMessage \<Rightarrow> OutputIframeDisplay ToolOut" where
  "outputIframeRun m =
     (case Unmarshal m zero_input of
        (inp, Some err) \<Rightarrow> ErrorToolOut err
      | (inp, None) \<Rightarrow>
          if input_HTML inp = '''' then ErrorfToolOut ''html content is required''
          else
            (let display = \<lparr>Type = ''output_iframe'', HTML = input_HTML inp,
                             Title = input_Title inp\<rparr>
             in \<lparr>LLMContent = TextContent ''displayed'', Display = Some display,
                  Error = None\<rparr>))"

text \<open>
  \<open>json.Marshal\<close> of an \<open>OutputIframeDisplay\<close>, as its struct tags say: \<open>type\<close> and \<open>html\<close>
  always, \<open>title\<close> only when it is not empty (\<open>omitempty\<close>).
\<close>

definition marshal_display :: "OutputIframeDisplay \<Rightarrow> json" where
  "marshal_display d =
     JObject ([(''type'', JString (Type d)), (''html'', JString (HTML d))]
              @ (if Title d = '''' then [] else [(''title'', JString (Title d))]))"

definition outputIframeInputSchema :: "json \<Rightarrow> bool" where
  \<comment> \<open>The declared input schema, read as a predicate: an object whose \<open>html\<close> property is
      present and a string, and whose \<open>title\<close> property, when present, is a string. A
      validator reads an object with a repeated key as holding the last value.\<close>
  "outputIframeInputSchema v =
     (case v of
        JObject kvs \<Rightarrow>
          (case map_of (rev kvs) ''html'' of
             Some (JString h) \<Rightarrow>
               (case map_of (rev kvs) ''title'' of
                  None \<Rightarrow> True
                | Some (JString t) \<Rightarrow> True
                | Some other \<Rightarrow> False)
           | Some other \<Rightarrow> False
           | None \<Rightarrow> False)
      | other \<Rightarrow> False)"

section \<open>Package server: the startup hook\<close>

subsection \<open>Durations and error texts\<close>

definition Second :: Duration where
  "Second = 1000000000"

definition startupHookFilename :: string where
  "startupHookFilename = ''on-conversation-start''"

definition startupHookTimeout :: Duration where
  "startupHookTimeout = 5 * Second"

text \<open>
  \<open>time.Duration.String\<close>, which \<open>%v\<close> prints: \<open>fmtInt\<close> writes a number in decimal,
  \<open>fmtFrac\<close> writes the last \<open>prec\<close> decimal digits as a fraction without trailing zeros and
  returns the rest of the number.
\<close>

definition digit_char :: "int \<Rightarrow> char" where
  "digit_char d = char_of (48 + d)"

function fmtInt :: "int \<Rightarrow> string" where
  "fmtInt v = (if v < 10 then [digit_char v] else fmtInt (v div 10) @ [digit_char (v mod 10)])"
  by pat_completeness auto
termination
  by (relation "measure nat") auto

declare fmtInt.simps [simp del]

primrec fmtFrac_loop :: "nat \<Rightarrow> int \<Rightarrow> bool \<Rightarrow> string \<Rightarrow> string \<times> int" where
  "fmtFrac_loop 0 v pr acc = ((if pr then CHR ''.'' # acc else acc), v)"
| "fmtFrac_loop (Suc k) v pr acc =
     (let pr' = (pr \<or> v mod 10 \<noteq> 0)
      in fmtFrac_loop k (v div 10) pr' (if pr' then digit_char (v mod 10) # acc else acc))"

definition fmtFrac :: "int \<Rightarrow> nat \<Rightarrow> string \<times> int" where
  "fmtFrac v prec = fmtFrac_loop prec v False []"

definition micro_sign :: string where
  "micro_sign = [char_of (0xC2 :: nat), char_of (0xB5 :: nat)]"

definition Duration_String :: "Duration \<Rightarrow> string" where
  "Duration_String d =
     (let u = \<bar>d\<bar>;
          body =
            (if u < 1000000000 then
               (if u = 0 then ''0s''
                else if u < 1000 then fmtInt u @ ''ns''
                else if u < 1000000 then
                  fmtInt (snd (fmtFrac u 3)) @ fst (fmtFrac u 3) @ micro_sign @ ''s''
                else fmtInt (snd (fmtFrac u 6)) @ fst (fmtFrac u 6) @ ''ms'')
             else
               (let secs = snd (fmtFrac u 9);
                    s = fmtInt (secs mod 60) @ fst (fmtFrac u 9) @ ''s'';
                    mins = secs div 60
                in if mins > 0 then
                     (let m = fmtInt (mins mod 60) @ ''m'' @ s;
                          hours = mins div 60
                      in if hours > 0 then fmtInt hours @ ''h'' @ m else m)
                   else s))
      in if d < 0 then CHR ''-'' # body else body)"

text \<open>
  The method \<open>Error()\<close>. How the library words its own errors is the parameter
  \<open>lib_text\<close>; what \<open>fmt.Errorf\<close> adds is fixed by the call.
\<close>

primrec Error_text :: "(lib_error_kind \<Rightarrow> string list \<Rightarrow> string) \<Rightarrow> go_error \<Rightarrow> string" where
  "Error_text lib_text (LibError k args) = lib_text k args"
| "Error_text lib_text (Errorf text) = text"
| "Error_text lib_text (Errorf_s text s) = text @ s"
| "Error_text lib_text (Errorf_v text d) = text @ Duration_String d"
| "Error_text lib_text (Errorf_w text err) = text @ Error_text lib_text err"

subsection \<open>Paths: \<open>filepath.Join\<close> on Unix\<close>

fun split_on :: "char \<Rightarrow> string \<Rightarrow> string list" where
  "split_on c [] = [[]]"
| "split_on c (x # xs) =
     (if x = c then [] # split_on c xs
      else (case split_on c xs of
              [] \<Rightarrow> [[x]]
            | y # ys \<Rightarrow> (x # y) # ys))"

fun join_with :: "string \<Rightarrow> string list \<Rightarrow> string" where
  "join_with sep [] = []"
| "join_with sep [x] = x"
| "join_with sep (x # y # ys) = x @ sep @ join_with sep (y # ys)"

text \<open>
  \<open>filepath.Clean\<close>, element by element: empty elements and \<open>.\<close> are dropped; \<open>..\<close> removes
  the element before it when there is one to remove, is dropped at the root of a rooted
  path, and is kept otherwise.
\<close>

definition clean_step :: "bool \<Rightarrow> string list \<Rightarrow> string \<Rightarrow> string list" where
  "clean_step rooted out elem =
     (if elem = '''' \<or> elem = ''.'' then out
      else if elem = ''..'' then
        (if out \<noteq> [] \<and> last out \<noteq> ''..'' then butlast out
         else if rooted then out
         else out @ [''..''])
      else out @ [elem])"

definition Clean :: "string \<Rightarrow> string" where
  "Clean path =
     (if path = '''' then ''.''
      else
        (let rooted = (hd path = CHR ''/'');
             out = foldl (clean_step rooted) [] (split_on CHR ''/'' path);
             s = (if rooted then ''/'' else '''') @ join_with ''/'' out
         in if s = '''' then ''.'' else s))"

definition Join :: "string list \<Rightarrow> string" where
  "Join elem =
     (case dropWhile (\<lambda>e. e = '''') elem of
        [] \<Rightarrow> ''''
      | rest \<Rightarrow> Clean (join_with ''/'' rest))"

subsection \<open>The operating system as the hook sees it\<close>

text \<open>
  \<open>fs.FileMode\<close> is a \<open>uint32\<close> whose low nine bits are the Unix permission bits.
\<close>

record FileInfo =
  Mode :: "32 word"

text \<open>
  What a program does once it has been started, on a clock that starts when
  \<open>RunStartupHook\<close> is called. The hook's own process writes chunks to standard output and
  standard error, each at a time, and exits by itself at a time with a status, or never.
  It may start further processes (a shell script running a command in the background, a
  daemon): a \<open>descendant\<close> is started at \<open>spawned_at\<close>, inherits the hook's standard output
  and standard error, writes its own chunks, and keeps the inherited pipe open until it ends
  at \<open>ends_at\<close>, or for ever; a process that gives the inherited streams up at once has no
  part in what the call sees and is left out. A program that cannot be started (no interpreter, a directory,
  a missing working directory) has the error of the start instead.
\<close>

record descendant =
  spawned_at :: Duration
  child_writes :: "(Duration \<times> string) list"
  ends_at :: "Duration option"

datatype program =
    StartFails string
  | Runs "(Duration \<times> string) list" "(Duration \<times> nat) option" "descendant list"

record OS =
  Getenv :: "string \<Rightarrow> string"
  Stat :: "string \<Rightarrow> go_error + FileInfo"
  Program :: "string \<Rightarrow> string \<Rightarrow> program"

text \<open>
  \<open>Getenv\<close> is \<open>os.Getenv\<close> (empty for a variable that is not set), \<open>Stat\<close> is \<open>os.Stat\<close>,
  and \<open>Program path dir\<close> is the program at \<open>path\<close> when run in the directory \<open>dir\<close>.
  The calls that reach the operating system are recorded in the order they are made.
\<close>

datatype os_call =
    CallGetenv string
  | CallStat string
  | ProcStart string string
  | ProcKill
  | ProcWait

text \<open>\<open>os.UserHomeDir\<close> on Unix reads \<open>$HOME\<close> and fails when it is empty.\<close>

definition UserHomeDir :: "OS \<Rightarrow> go_error + string" where
  "UserHomeDir os =
     (if Getenv os ''HOME'' \<noteq> '''' then Inr (Getenv os ''HOME'')
      else Inl (LibError HomeDirError [''$HOME is not defined'']))"

subsection \<open>Contexts and \<open>os/exec\<close>\<close>

datatype ctx_err = Canceled | DeadlineExceeded

text \<open>
  A \<open>context.Context\<close> on the same clock: \<open>None\<close> is never done; \<open>Some (t, e)\<close> is done from
  time \<open>t\<close> on, and \<open>Err\<close> is \<open>e\<close> from then on.
\<close>

type_synonym Context = "(Duration \<times> ctx_err) option"

definition ctx_Err :: "Context \<Rightarrow> Duration \<Rightarrow> ctx_err option" where
  "ctx_Err ctx now =
     (case ctx of
        None \<Rightarrow> None
      | Some (t, e) \<Rightarrow> if t \<le> now then Some e else None)"

text \<open>
  \<open>context.WithTimeout(parent, d)\<close> called at time 0: the child is done when the parent is,
  with the parent's error, if that happens before \<open>d\<close> has passed, and at \<open>d\<close> with
  \<open>DeadlineExceeded\<close> otherwise. The child always has a time at which it is done.
\<close>

definition WithTimeout :: "Context \<Rightarrow> Duration \<Rightarrow> Duration \<times> ctx_err" where
  "WithTimeout parent d =
     (case parent of
        None \<Rightarrow> (d, DeadlineExceeded)
      | Some (t, e) \<Rightarrow> if t < d then (t, e) else (d, DeadlineExceeded))"

definition ctx_error :: "ctx_err \<Rightarrow> go_error" where
  "ctx_error e =
     (case e of
        Canceled \<Rightarrow> LibError ContextError [''context canceled'']
      | DeadlineExceeded \<Rightarrow> LibError ContextError [''context deadline exceeded''])"

record Cmd =
  Path :: string
  Dir :: string

record cmd_result =
  cmd_output :: string
  cmd_err :: "go_error option"
  returned_at :: Duration
  proc_calls :: "os_call list"

text \<open>
  How the hook's own process ends under a context that is done at time \<open>t\<close>: it exits by
  itself if it does so before \<open>t\<close>, and \<open>exec\<close> kills it at \<open>t\<close> otherwise. The kill
  (\<open>os.Process.Kill\<close>) reaches this one process only.
\<close>

datatype process_end = Exited Duration nat | Killed Duration

definition own_end :: "Duration \<Rightarrow> (Duration \<times> nat) option \<Rightarrow> process_end" where
  "own_end t exit =
     (case exit of
        None \<Rightarrow> Killed t
      | Some (te, status) \<Rightarrow> if te < t then Exited te status else Killed t)"

definition end_time :: "process_end \<Rightarrow> Duration" where
  "end_time e = (case e of Exited te status \<Rightarrow> te | Killed t \<Rightarrow> t)"

definition writes_until :: "bool \<Rightarrow> Duration \<Rightarrow> (Duration \<times> string) list \<Rightarrow> (Duration \<times> string) list" where
  \<comment> \<open>the writes made before time \<open>t\<close> (up to and including \<open>t\<close> when \<open>incl\<close>)\<close>
  "writes_until incl t writes = filter (\<lambda>w. fst w < t \<or> (incl \<and> fst w = t)) writes"

definition own_writes :: "process_end \<Rightarrow> (Duration \<times> string) list \<Rightarrow> (Duration \<times> string) list" where
  "own_writes e writes =
     (case e of
        Exited te status \<Rightarrow> writes_until True te writes
      | Killed t \<Rightarrow> writes_until False t writes)"

text \<open>
  The descendants that exist are those the hook started before its own process ended. What
  a descendant writes, it writes until it ends.
\<close>

definition started :: "process_end \<Rightarrow> descendant list \<Rightarrow> descendant list" where
  "started e kids = filter (\<lambda>k. spawned_at k < end_time e) kids"

definition descendant_writes :: "descendant \<Rightarrow> (Duration \<times> string) list" where
  "descendant_writes k =
     (case ends_at k of
        None \<Rightarrow> child_writes k
      | Some x \<Rightarrow> writes_until True x (child_writes k))"

text \<open>
  \<open>CombinedOutput\<close> gives the command a pipe for both streams and copies from it into a
  buffer until the pipe is closed, that is until no process holds its write end any more.
  With no \<open>WaitDelay\<close> set, \<open>Wait\<close> returns only then: at the later of the end of the hook's
  own process and the ends of its descendants, and never when a descendant never ends.
\<close>

fun pipe_closed_at :: "Duration \<Rightarrow> descendant list \<Rightarrow> Duration option" where
  "pipe_closed_at t [] = Some t"
| "pipe_closed_at t (k # ks) =
     (case ends_at k of
        None \<Rightarrow> None
      | Some x \<Rightarrow> pipe_closed_at (max t x) ks)"

definition combined :: "(Duration \<times> string) list \<Rightarrow> string" where
  \<comment> \<open>the chunks in the order of their times\<close>
  "combined ws = concat (map snd (sort_key fst ws))"

definition wait_error :: "process_end \<Rightarrow> go_error option" where
  "wait_error e =
     (case e of
        Killed t \<Rightarrow> Some (LibError ExitError [''signal: killed''])
      | Exited te status \<Rightarrow>
          if status = 0 then None
          else Some (LibError ExitError [''exit status'', fmtInt (int status)]))"

definition exec_calls :: "Cmd \<Rightarrow> process_end \<Rightarrow> os_call list" where
  "exec_calls cmd e =
     (case e of
        Killed t \<Rightarrow> [ProcStart (Path cmd) (Dir cmd), ProcKill, ProcWait]
      | Exited te status \<Rightarrow> [ProcStart (Path cmd) (Dir cmd), ProcWait])"

text \<open>
  \<open>exec.CommandContext(ctx, path)\<close> followed by \<open>CombinedOutput\<close>, for a context that is
  done at time \<open>t\<close>; \<open>None\<close> when the call never returns. A context that is done already
  keeps the process from starting. Otherwise the hook's own process ends as \<open>own_end\<close>
  says, the call returns when the pipe is closed, and the output is everything that was
  written into the pipe until then, by the hook's own process and by its descendants.
\<close>

definition CombinedOutput :: "OS \<Rightarrow> Duration \<times> ctx_err \<Rightarrow> Cmd \<Rightarrow> cmd_result option" where
  "CombinedOutput os ctx cmd =
     (if fst ctx \<le> 0 then
        Some \<lparr>cmd_output = '''', cmd_err = Some (ctx_error (snd ctx)), returned_at = 0,
              proc_calls = []\<rparr>
      else
        (case Program os (Path cmd) (Dir cmd) of
           StartFails msg \<Rightarrow>
             Some \<lparr>cmd_output = '''', cmd_err = Some (LibError PathError [msg]),
                   returned_at = 0, proc_calls = [ProcStart (Path cmd) (Dir cmd)]\<rparr>
         | Runs writes exit kids \<Rightarrow>
             (let e = own_end (fst ctx) exit;
                  ks = started e kids
              in case pipe_closed_at (end_time e) ks of
                   None \<Rightarrow> None
                 | Some closed \<Rightarrow>
                     Some \<lparr>cmd_output =
                             combined (own_writes e writes @ concat (map descendant_writes ks)),
                           cmd_err = wait_error e,
                           returned_at = closed,
                           proc_calls = exec_calls cmd e\<rparr>)))"

subsection \<open>\<open>findStartupHook\<close> and \<open>RunStartupHook\<close>\<close>

text \<open>
  \<open>StartupHookResult\<close>: the field \<open>Error\<close> is called \<open>Err\<close> here, \<open>Error\<close> being the field
  of \<open>ToolOut\<close>. A \<open>hook_run\<close> is what a call of \<open>RunStartupHook\<close> leaves behind: the
  pointer it returns (\<open>None\<close> for \<open>nil\<close>) and the calls it made. \<open>RunStartupHook\<close> itself
  is \<open>None\<close> when the call never returns.
\<close>

record StartupHookResult =
  Output :: string
  Err :: "go_error option"

record hook_run =
  result :: "StartupHookResult option"
  calls :: "os_call list"

definition hook_path :: "string \<Rightarrow> string" where
  "hook_path home = Join [home, ''.config'', ''shelley'', startupHookFilename]"

definition findStartupHook :: "OS \<Rightarrow> string \<times> os_call list" where
  "findStartupHook os =
     (case UserHomeDir os of
        Inl err \<Rightarrow> ('''', [CallGetenv ''HOME''])
      | Inr home \<Rightarrow>
          (case Stat os (hook_path home) of
             Inr info \<Rightarrow> (hook_path home, [CallGetenv ''HOME'', CallStat (hook_path home)])
           | Inl err \<Rightarrow> ('''', [CallGetenv ''HOME'', CallStat (hook_path home)])))"

definition exec_bits :: "32 word" where
  \<comment> \<open>octal \<open>0111\<close>\<close>
  "exec_bits = 0x49"

definition RunStartupHook :: "OS \<Rightarrow> Context \<Rightarrow> string \<Rightarrow> hook_run option" where
  "RunStartupHook os ctx cwd =
     (if Getenv os ''SHELLEY_DISABLE_STARTUP_HOOK'' \<noteq> '''' then
        Some \<lparr>result = None, calls = [CallGetenv ''SHELLEY_DISABLE_STARTUP_HOOK'']\<rparr>
      else
        (let found = findStartupHook os;
             hookPath = fst found;
             cs = CallGetenv ''SHELLEY_DISABLE_STARTUP_HOOK'' # snd found
         in if hookPath = '''' then Some \<lparr>result = None, calls = cs\<rparr>
            else
              (case Stat os hookPath of
                 Inl err \<Rightarrow>
                   Some \<lparr>result = Some \<lparr>Output = '''',
                                          Err = Some (Errorf_w ''failed to stat hook: '' err)\<rparr>,
                         calls = cs @ [CallStat hookPath]\<rparr>
               | Inr info \<Rightarrow>
                   if Mode info AND exec_bits = 0 then
                     Some \<lparr>result = Some \<lparr>Output = '''',
                                            Err = Some (Errorf_s ''hook is not executable: ''
                                                          hookPath)\<rparr>,
                           calls = cs @ [CallStat hookPath]\<rparr>
                   else
                     (let ctx' = WithTimeout ctx startupHookTimeout;
                          cmd = \<lparr>Path = hookPath, Dir = (if cwd \<noteq> '''' then cwd else '''')\<rparr>
                      in case CombinedOutput os ctx' cmd of
                           None \<Rightarrow> None
                         | Some r \<Rightarrow>
                             (let cs' = cs @ [CallStat hookPath] @ proc_calls r
                              in if ctx_Err (Some ctx') (returned_at r) = Some DeadlineExceeded
                                 then
                                   Some \<lparr>result = Some \<lparr>Output = cmd_output r,
                                             Err = Some (Errorf_v ''hook timed out after ''
                                                           startupHookTimeout)\<rparr>,
                                         calls = cs'\<rparr>
                                 else
                                   (case cmd_err r of
                                      Some e \<Rightarrow>
                                        Some \<lparr>result = Some \<lparr>Output = cmd_output r,
                                                  Err = Some (Errorf_w ''hook failed: '' e)\<rparr>,
                                              calls = cs'\<rparr>
                                    | None \<Rightarrow>
                                        Some \<lparr>result = Some \<lparr>Output = cmd_output r,
                                                               Err = None\<rparr>,
                                              calls = cs'\<rparr>))))))"

subsection \<open>The caller of the hook\<close>

text \<open>
  Modelled from the spec: the code that calls \<open>RunStartupHook\<close> when a conversation starts
  and stores what it returns is not among the sources. The spec says that the hook's
  captured output becomes the body of a \<open>startup-hook\<close> message, that a hook that failed
  gives a \<open>startup-hook\<close> message carrying the error, and that absence is silent: when
  there is nothing to run, no message is emitted. \<open>startup_hook_message\<close> is the message
  the caller appends for a returned pointer, \<open>None\<close> when it appends none.
\<close>

record hook_message =
  message_type :: string
  body :: string
  carried_error :: "string option"

definition startup_hook_message ::
  "(lib_error_kind \<Rightarrow> string list \<Rightarrow> string) \<Rightarrow> StartupHookResult option \<Rightarrow> hook_message option" where
  "startup_hook_message lib_text res =
     (case res of
        None \<Rightarrow> None
      | Some r \<Rightarrow>
          Some \<lparr>message_type = ''startup-hook'', body = Output r,
                carried_error = map_option (Error_text lib_text) (Err r)\<rparr>)"

subsection \<open>Words for the statements about the hook\<close>

text \<open>
  A call that starts a process; a program whose own process, left alone, is still running
  when \<open>d\<close> has passed; a caller's context that is done before \<open>d\<close> has passed; and the
  parts of a program.
\<close>

fun is_ProcStart :: "os_call \<Rightarrow> bool" where
  "is_ProcStart (ProcStart p dir) = True"
| "is_ProcStart c = False"

definition outlives :: "program \<Rightarrow> Duration \<Rightarrow> bool" where
  "outlives prog d =
     (case prog of
        StartFails msg \<Rightarrow> False
      | Runs writes None kids \<Rightarrow> True
      | Runs writes (Some (te, status)) kids \<Rightarrow> d < te)"

definition done_before :: "Context \<Rightarrow> Duration \<Rightarrow> bool" where
  "done_before ctx d = (case ctx of None \<Rightarrow> False | Some (t, e) \<Rightarrow> t < d)"

definition program_writes :: "program \<Rightarrow> (Duration \<times> string) list" where
  "program_writes prog =
     (case prog of StartFails msg \<Rightarrow> [] | Runs writes exit kids \<Rightarrow> writes)"

definition descendants :: "program \<Rightarrow> descendant list" where
  "descendants prog = (case prog of StartFails msg \<Rightarrow> [] | Runs writes exit kids \<Rightarrow> kids)"

text \<open>
  A machine to run the hook on: the home directory is \<open>/home/u\<close>, the disable variable has
  the value \<open>toggle\<close>, and the hook file, when \<open>present\<close>, has the mode \<open>mode\<close> and the
  behaviour \<open>prog\<close>.
\<close>

definition machine :: "string \<Rightarrow> bool \<Rightarrow> 32 word \<Rightarrow> program \<Rightarrow> OS" where
  "machine toggle present mode prog =
     \<lparr>Getenv = (\<lambda>k. if k = ''HOME'' then ''/home/u''
                      else if k = ''SHELLEY_DISABLE_STARTUP_HOOK'' then toggle
                      else ''''),
      Stat = (\<lambda>p. if present \<and> p = ''/home/u/.config/shelley/on-conversation-start''
                    then Inr \<lparr>Mode = mode\<rparr>
                    else Inl (LibError PathError [''stat'', p, ''no such file or directory''])),
      Program = (\<lambda>p dir. prog)\<rparr>"

definition slow_hook :: program where
  \<comment> \<open>one process: writes after 1 ms and after 6 s, and never exits\<close>
  "slow_hook = Runs [(1000000, ''branch: main''), (6000000000, ''done'')] None []"

text \<open>
  A shell script that prints \<open>branch: main\<close>, starts \<open>(sleep 6; printf done) &\<close> and then
  sleeps for a minute: its own process writes after 1 ms and is still running after 5 s;
  the subshell is started after 2 ms, writes after 6 s and ends then.
\<close>

definition forking_hook :: program where
  "forking_hook =
     Runs [(1000000, ''branch: main'')] (Some (60000000000, 0))
       [\<lparr>spawned_at = 2000000, child_writes = [(6000000000, ''done'')],
         ends_at = Some 6000000000\<rparr>]"

text \<open>
  The same script with a background command that never ends (\<open>tail -f\<close> of a log file) and
  keeps the inherited standard output.
\<close>

definition daemon_hook :: program where
  "daemon_hook =
     Runs [(1000000, ''branch: main'')] (Some (60000000000, 0))
       [\<lparr>spawned_at = 2000000, child_writes = [], ends_at = None\<rparr>]"

section \<open>Package db: the \<open>messages\<close> table of migration 011\<close>

subsection \<open>The table and its constraints\<close>

text \<open>
  A row of \<open>messages\<close> as the table stores it. The columns declared \<open>NOT NULL\<close> always
  hold a value. \<open>message_id\<close> is a \<open>TEXT PRIMARY KEY\<close> without \<open>NOT NULL\<close>, which SQLite
  lets be \<open>NULL\<close>; the other columns are nullable as declared.
\<close>

record message =
  message_id :: "string option"
  conversation_id :: string
  sequence_id :: int
  type :: string
  llm_data :: "string option"
  user_data :: "string option"
  usage_data :: "string option"
  created_at :: string
  display_data :: "string option"

text \<open>
  The values an \<open>INSERT\<close> supplies for the nine columns, \<open>None\<close> being \<open>NULL\<close>. For
  \<open>created_at\<close> the statement may leave the column out, and the column then takes its
  default, \<open>CURRENT_TIMESTAMP\<close>.
\<close>

datatype created_at_value = Default | Given "string option"

record insert_values =
  message_id_value :: "string option"
  conversation_id_value :: "string option"
  sequence_id_value :: "int option"
  type_value :: "string option"
  llm_data_value :: "string option"
  user_data_value :: "string option"
  usage_data_value :: "string option"
  created_at_value :: created_at_value
  display_data_value :: "string option"

text \<open>
  The database: the ids in table \<open>conversations\<close>, the rows of \<open>messages\<close> in the order
  they were inserted, and whether \<open>PRAGMA foreign_keys\<close> is on (SQLite enforces the
  \<open>FOREIGN KEY\<close> clause only then). The three indexes of step 5 are plain indexes, none
  of them \<open>UNIQUE\<close>: they constrain nothing and have no part in the model.
\<close>

record db =
  conversations :: "string list"
  messages :: "message list"
  foreign_keys :: bool

datatype constraint = NotNull string | Check | PrimaryKey | ForeignKey

datatype store_error = ConstraintViolation constraint

definition message_types :: "string list" where
  "message_types =
     [''user'', ''agent'', ''tool'', ''system'', ''error'', ''gitinfo'', ''startup-hook'']"

text \<open>
  \<open>INSERT INTO messages\<close> of one row at time \<open>now\<close>. SQLite tests the \<open>NOT NULL\<close>
  constraints first, in column order, then the \<open>CHECK\<close>, then the primary key, then the
  foreign key; the first constraint that fails aborts the statement and the table stays as
  it was.
\<close>

definition insert_message :: "string \<Rightarrow> insert_values \<Rightarrow> db \<Rightarrow> store_error + db" where
  "insert_message now v d =
     (case conversation_id_value v of
        None \<Rightarrow> Inl (ConstraintViolation (NotNull ''conversation_id''))
      | Some c \<Rightarrow>
     (case sequence_id_value v of
        None \<Rightarrow> Inl (ConstraintViolation (NotNull ''sequence_id''))
      | Some n \<Rightarrow>
     (case type_value v of
        None \<Rightarrow> Inl (ConstraintViolation (NotNull ''type''))
      | Some t \<Rightarrow>
     (case (case created_at_value v of Default \<Rightarrow> Some now | Given g \<Rightarrow> g) of
        None \<Rightarrow> Inl (ConstraintViolation (NotNull ''created_at''))
      | Some at \<Rightarrow>
          if t \<notin> set message_types then Inl (ConstraintViolation Check)
          else if message_id_value v \<noteq> None
                  \<and> message_id_value v \<in> set (map message_id (messages d))
            then Inl (ConstraintViolation PrimaryKey)
          else if foreign_keys d \<and> c \<notin> set (conversations d)
            then Inl (ConstraintViolation ForeignKey)
          else
            Inr (d\<lparr>messages := messages d @
                   [\<lparr>message_id = message_id_value v, conversation_id = c,
                     sequence_id = n, type = t, llm_data = llm_data_value v,
                     user_data = user_data_value v, usage_data = usage_data_value v,
                     created_at = at, display_data = display_data_value v\<rparr>]\<rparr>)))))"

subsection \<open>The migration\<close>

text \<open>
  Step 2 selects every column of every old row and inserts it into \<open>messages_new\<close>, so
  each old row passes through the constraints of the new table; the first row that fails
  aborts the migration. Steps 3 and 4 make the new table the \<open>messages\<close> table.
\<close>

definition selected :: "message \<Rightarrow> insert_values" where
  "selected r =
     \<lparr>message_id_value = message_id r, conversation_id_value = Some (conversation_id r),
      sequence_id_value = Some (sequence_id r), type_value = Some (type r),
      llm_data_value = llm_data r, user_data_value = user_data r,
      usage_data_value = usage_data r, created_at_value = Given (Some (created_at r)),
      display_data_value = display_data r\<rparr>"

fun insert_all :: "string \<Rightarrow> insert_values list \<Rightarrow> db \<Rightarrow> store_error + db" where
  "insert_all now [] d = Inr d"
| "insert_all now (v # vs) d =
     (case insert_message now v d of
        Inl e \<Rightarrow> Inl e
      | Inr d' \<Rightarrow> insert_all now vs d')"

definition migration_011 :: "string \<Rightarrow> db \<Rightarrow> store_error + db" where
  "migration_011 now d = insert_all now (map selected (messages d)) (d\<lparr>messages := []\<rparr>)"

text \<open>
  \<open>INSERT\<close> is the only statement that adds a row. \<open>after_inserts\<close> is the table after a
  series of inserts, each given as the time and the values; an insert that fails leaves the
  table as it was.
\<close>

fun after_inserts :: "(string \<times> insert_values) list \<Rightarrow> db \<Rightarrow> db" where
  "after_inserts [] d = d"
| "after_inserts ((now, v) # ins) d =
     (case insert_message now v d of
        Inl e \<Rightarrow> after_inserts ins d
      | Inr d' \<Rightarrow> after_inserts ins d')"

subsection \<open>Append\<close>

text \<open>
  Modelled from the spec: the Go code of the store (\<open>Append\<close> and the query that picks the
  next sequence id) is not among the sources; only the table is. The spec says that
  \<open>Append(conversation_id, message)\<close> assigns the next \<open>sequence_id\<close> of the conversation
  atomically and fails with \<open>ConstraintViolation\<close> when the type is outside the closed set,
  and that the ids of a conversation run from 1 (or from 0) without gaps. The model takes
  the next id to be one more than the largest id of the conversation, \<open>first\<close> for a
  conversation without messages, and writes the row with \<open>insert_message\<close>. \<open>first\<close> is a
  parameter, the spec leaving it open between 1 and 0.
\<close>

record new_message =
  new_message_id :: string
  new_type :: string
  new_llm_data :: "string option"
  new_user_data :: "string option"
  new_usage_data :: "string option"
  new_display_data :: "string option"

definition sequence_ids :: "db \<Rightarrow> string \<Rightarrow> int list" where
  "sequence_ids d c = map sequence_id (filter (\<lambda>r. conversation_id r = c) (messages d))"

definition next_sequence_id :: "int \<Rightarrow> db \<Rightarrow> string \<Rightarrow> int" where
  "next_sequence_id first d c =
     (if sequence_ids d c = [] then first else Max (set (sequence_ids d c)) + 1)"

definition Append :: "int \<Rightarrow> string \<Rightarrow> string \<Rightarrow> new_message \<Rightarrow> db \<Rightarrow> store_error + db" where
  "Append first now c m d =
     insert_message now
       \<lparr>message_id_value = Some (new_message_id m), conversation_id_value = Some c,
        sequence_id_value = Some (next_sequence_id first d c),
        type_value = Some (new_type m), llm_data_value = new_llm_data m,
        user_data_value = new_user_data m, usage_data_value = new_usage_data m,
        created_at_value = Default, display_data_value = new_display_data m\<rparr>
       d"

text \<open>
  A history of the store: appends by any number of writers to any conversations, in the
  order in which the store performs them, each given as the time, the conversation and the
  message. An append is atomic, so concurrent appenders show as an interleaving of their
  appends. \<open>store_after\<close> is the store after the history, a failed append leaving it as it
  was, and \<open>appended\<close> counts the appends to one conversation that succeeded.
\<close>

fun store_after :: "int \<Rightarrow> (string \<times> string \<times> new_message) list \<Rightarrow> db \<Rightarrow> db" where
  "store_after first [] d = d"
| "store_after first ((now, c, m) # ops) d =
     (case Append first now c m d of
        Inl e \<Rightarrow> store_after first ops d
      | Inr d' \<Rightarrow> store_after first ops d')"

fun appended :: "int \<Rightarrow> string \<Rightarrow> (string \<times> string \<times> new_message) list \<Rightarrow> db \<Rightarrow> nat" where
  "appended first c [] d = 0"
| "appended first c ((now, c', m) # ops) d =
     (case Append first now c' m d of
        Inl e \<Rightarrow> appended first c ops d
      | Inr d' \<Rightarrow> (if c' = c then 1 else 0) + appended first c ops d')"

subsection \<open>A small store and a history\<close>

definition empty_store :: db where
  "empty_store = \<lparr>conversations = [''c1'', ''c2''], messages = [], foreign_keys = True\<rparr>"

definition message_of :: "string \<Rightarrow> string \<Rightarrow> new_message" where
  "message_of ident t =
     \<lparr>new_message_id = ident, new_type = t, new_llm_data = None, new_user_data = None,
      new_usage_data = None, new_display_data = None\<rparr>"

text \<open>
  Two writers, one per conversation, interleaved. The third append has a type outside the
  closed set and the fifth repeats a message id, so both fail.
\<close>

definition history :: "(string \<times> string \<times> new_message) list" where
  "history =
     [(''09:00'', ''c1'', message_of ''m1'' ''user''),
      (''09:01'', ''c2'', message_of ''m2'' ''user''),
      (''09:02'', ''c1'', message_of ''m3'' ''note''),
      (''09:03'', ''c1'', message_of ''m4'' ''agent''),
      (''09:04'', ''c1'', message_of ''m1'' ''tool''),
      (''09:05'', ''c2'', message_of ''m5'' ''startup-hook'')]"

definition row :: "string \<Rightarrow> string \<Rightarrow> insert_values" where
  "row ident t =
     \<lparr>message_id_value = Some ident, conversation_id_value = Some ''c1'',
      sequence_id_value = Some 1, type_value = Some t, llm_data_value = None,
      user_data_value = None, usage_data_value = None, created_at_value = Default,
      display_data_value = None\<rparr>"

definition old_store :: db where
  \<comment> \<open>the table before the migration, holding one row\<close>
  "old_store =
     \<lparr>conversations = [''c1''],
      messages = [\<lparr>message_id = Some ''m0'', conversation_id = ''c1'', sequence_id = 1,
                   type = ''gitinfo'', llm_data = None, user_data = None, usage_data = None,
                   created_at = ''08:00'', display_data = None\<rparr>],
      foreign_keys = True\<rparr>"

section \<open>Properties of the \<open>output_iframe\<close> tool\<close>

lemmas decode_defs = decode_object_def decode_member_def lookup_field_def byExactName_def
  byFoldedName_def foldName_def lower_ascii_def field_name_def saveError_def

lemmas run_defs = outputIframeRun_def zero_input_def TextContent_def ErrorToolOut_def
  ErrorfToolOut_def

text \<open>
  C4 (Scenario A). Run on the object \<open>{html: "<h1>Hi</h1>"}\<close>, the tool returns no error,
  the single text block \<open>displayed\<close> as \<open>LLMContent\<close>, and the display with type
  \<open>output_iframe\<close> and the same html; its title is empty, so the display serialises to
  \<open>{type: "output_iframe", html: "<h1>Hi</h1>"}\<close>.
\<close>

theorem output_iframe_scenario_A:
  "outputIframeRun (Valid (JObject [(''html'', JString ''<h1>Hi</h1>'')]))
     = \<lparr>LLMContent = [\<lparr>ContentType = ContentTypeText, Text = ''displayed''\<rparr>],
        Display = Some \<lparr>Type = ''output_iframe'', HTML = ''<h1>Hi</h1>'', Title = ''''\<rparr>,
        Error = None\<rparr>
   \<and> map_option marshal_display
       (Display (outputIframeRun (Valid (JObject [(''html'', JString ''<h1>Hi</h1>'')]))))
     = Some (JObject [(''type'', JString ''output_iframe''),
                      (''html'', JString ''<h1>Hi</h1>'')])"
  by (simp add: run_defs decode_defs marshal_display_def)

text \<open>
  C5 (Scenario B). Run on the empty object \<open>{}\<close>, which lacks the required \<open>html\<close> and so
  fails the declared schema, the tool returns an error and no display.
\<close>

theorem output_iframe_missing_html:
  "Error (outputIframeRun (Valid (JObject []))) \<noteq> None
   \<and> Error (outputIframeRun (Valid (JObject []))) = Some (Errorf ''html content is required'')
   \<and> Display (outputIframeRun (Valid (JObject []))) = None
   \<and> \<not> outputIframeInputSchema (JObject [])"
  by (simp add: outputIframeInputSchema_def run_defs decode_defs)

text \<open>
  C9. The object \<open>{html: ""}\<close> satisfies the declared schema, which asks only for a string
  under \<open>html\<close>, and the tool still returns an error: a valid input does not guarantee a
  successful run.
\<close>

theorem output_iframe_empty_html_is_valid_but_fails:
  "outputIframeInputSchema (JObject [(''html'', JString '''')])
   \<and> Error (outputIframeRun (Valid (JObject [(''html'', JString '''')]))) \<noteq> None
   \<and> Error (outputIframeRun (Valid (JObject [(''html'', JString '''')])))
       = Some (Errorf ''html content is required'')"
  by (simp add: outputIframeInputSchema_def run_defs decode_defs)





section \<open>Properties of the startup hook\<close>

lemma timeout_value: "startupHookTimeout = 5000000000"
  by (simp add: startupHookTimeout_def Second_def)

lemma timeout_text: "Duration_String startupHookTimeout = ''5s''"
  by code_simp

lemma Clean_nonempty: "Clean p \<noteq> ''''"
  by (simp add: Clean_def Let_def)

lemma hook_path_nonempty: "hook_path home \<noteq> ''''"
  by (simp add: hook_path_def Join_def Clean_nonempty startupHookFilename_def
        split: list.splits)

lemma hook_path_home_u:
  "hook_path ''/home/u'' = ''/home/u/.config/shelley/on-conversation-start''"
  by (simp add: hook_path_def Join_def Clean_def clean_step_def startupHookFilename_def)

lemma find_present:
  "Getenv os ''HOME'' \<noteq> '''' \<Longrightarrow> Stat os (hook_path (Getenv os ''HOME'')) = Inr info \<Longrightarrow>
   findStartupHook os
     = (hook_path (Getenv os ''HOME''),
        [CallGetenv ''HOME'', CallStat (hook_path (Getenv os ''HOME''))])"
  by (simp add: findStartupHook_def UserHomeDir_def)

text \<open>
  What \<open>RunStartupHook\<close> does once the switch is off and the file is found.
\<close>

lemma run_not_executable:
  assumes "Getenv os ''SHELLEY_DISABLE_STARTUP_HOOK'' = ''''"
    and "Getenv os ''HOME'' \<noteq> ''''"
    and "Stat os (hook_path (Getenv os ''HOME'')) = Inr info"
    and "Mode info AND exec_bits = 0"
  shows "RunStartupHook os ctx cwd =
     Some \<lparr>result = Some \<lparr>Output = '''',
                            Err = Some (Errorf_s ''hook is not executable: ''
                                          (hook_path (Getenv os ''HOME'')))\<rparr>,
           calls = [CallGetenv ''SHELLEY_DISABLE_STARTUP_HOOK'', CallGetenv ''HOME'',
                    CallStat (hook_path (Getenv os ''HOME'')),
                    CallStat (hook_path (Getenv os ''HOME''))]\<rparr>"
  using assms
  by (simp add: RunStartupHook_def find_present hook_path_nonempty Let_def)

lemma run_executable:
  assumes "Getenv os ''SHELLEY_DISABLE_STARTUP_HOOK'' = ''''"
    and "Getenv os ''HOME'' \<noteq> ''''"
    and "Stat os (hook_path (Getenv os ''HOME'')) = Inr info"
    and "Mode info AND exec_bits \<noteq> 0"
  shows "RunStartupHook os ctx cwd =
     (case CombinedOutput os (WithTimeout ctx startupHookTimeout)
             \<lparr>Path = hook_path (Getenv os ''HOME''), Dir = cwd\<rparr> of
        None \<Rightarrow> None
      | Some r \<Rightarrow>
          Some \<lparr>result = Some
                  \<lparr>Output = cmd_output r,
                   Err = (if ctx_Err (Some (WithTimeout ctx startupHookTimeout)) (returned_at r)
                             = Some DeadlineExceeded
                          then Some (Errorf_v ''hook timed out after '' startupHookTimeout)
                          else map_option (Errorf_w ''hook failed: '') (cmd_err r))\<rparr>,
                calls = [CallGetenv ''SHELLEY_DISABLE_STARTUP_HOOK'', CallGetenv ''HOME'',
                         CallStat (hook_path (Getenv os ''HOME'')),
                         CallStat (hook_path (Getenv os ''HOME''))] @ proc_calls r\<rparr>)"
  using assms
  by (auto simp add: RunStartupHook_def find_present hook_path_nonempty Let_def
        split: option.splits)

lemma executable_never_not_executable:
  assumes "Getenv os ''SHELLEY_DISABLE_STARTUP_HOOK'' = ''''"
    and "Getenv os ''HOME'' \<noteq> ''''"
    and "Stat os (hook_path (Getenv os ''HOME'')) = Inr info"
    and "Mode info AND exec_bits \<noteq> 0"
    and "RunStartupHook os ctx cwd = Some h"
    and "result h = Some r"
  shows "Err r \<noteq> Some (Errorf_s ''hook is not executable: '' p)"
  using assms(5,6) unfolding run_executable[OF assms(1-4)]
  by (auto split: option.splits if_splits)

lemma not_executable_text:
  "sublist ''not executable'' (Error_text lib_text (Errorf_s ''hook is not executable: '' p))"
proof -
  have "Error_text lib_text (Errorf_s ''hook is not executable: '' p)
        = ''hook is '' @ ''not executable'' @ ('': '' @ p)"
    by simp
  then show ?thesis
    unfolding sublist_def by blast
qed

lemma machine_simps:
  "Getenv (machine toggle present mode prog) ''HOME'' = ''/home/u''"
  "Getenv (machine toggle present mode prog) ''SHELLEY_DISABLE_STARTUP_HOOK'' = toggle"
  "Stat (machine toggle True mode prog) ''/home/u/.config/shelley/on-conversation-start''
     = Inr \<lparr>Mode = mode\<rparr>"
  "Stat (machine toggle False mode prog) p
     = Inl (LibError PathError [''stat'', p, ''no such file or directory''])"
  "Program (machine toggle present mode prog) p dir = prog"
  by (simp_all add: machine_def)

lemmas exec_defs = CombinedOutput_def WithTimeout_def own_end_def end_time_def
  writes_until_def own_writes_def started_def descendant_writes_def combined_def
  wait_error_def exec_calls_def ctx_Err_def

text \<open>
  A hook that is one process, with no descendant that holds its output, is treated as the
  timeout promises: if its process is still running when the timeout has passed and the
  caller's context has not ended before, \<open>RunStartupHook\<close> returns at the timeout what was
  written before it, with the error \<open>hook timed out after 5s\<close>, after the kill and the
  wait.
\<close>

lemma single_process_timeout:
  assumes "Getenv os ''SHELLEY_DISABLE_STARTUP_HOOK'' = ''''"
    and "Getenv os ''HOME'' \<noteq> ''''"
    and "Stat os (hook_path (Getenv os ''HOME'')) = Inr info"
    and "Mode info AND exec_bits \<noteq> 0"
    and "outlives (Program os (hook_path (Getenv os ''HOME'')) cwd) startupHookTimeout"
    and "descendants (Program os (hook_path (Getenv os ''HOME'')) cwd) = []"
    and "\<not> done_before ctx startupHookTimeout"
  shows "RunStartupHook os ctx cwd =
           Some \<lparr>result = Some
              \<lparr>Output = combined (writes_until False startupHookTimeout
                          (program_writes (Program os (hook_path (Getenv os ''HOME'')) cwd))),
               Err = Some (Errorf_v ''hook timed out after '' startupHookTimeout)\<rparr>,
            calls = [CallGetenv ''SHELLEY_DISABLE_STARTUP_HOOK'', CallGetenv ''HOME'',
                     CallStat (hook_path (Getenv os ''HOME'')),
                     CallStat (hook_path (Getenv os ''HOME'')),
                     ProcStart (hook_path (Getenv os ''HOME'')) cwd, ProcKill, ProcWait]\<rparr>"
proof -
  have w: "WithTimeout ctx startupHookTimeout = (startupHookTimeout, DeadlineExceeded)"
    using assms(7) by (auto simp: WithTimeout_def done_before_def split: option.splits)
  have r: "CombinedOutput os (startupHookTimeout, DeadlineExceeded)
             \<lparr>Path = hook_path (Getenv os ''HOME''), Dir = cwd\<rparr>
           = Some \<lparr>cmd_output = combined (writes_until False startupHookTimeout
                      (program_writes (Program os (hook_path (Getenv os ''HOME'')) cwd))),
                   cmd_err = Some (LibError ExitError [''signal: killed'']),
                   returned_at = startupHookTimeout,
                   proc_calls = [ProcStart (hook_path (Getenv os ''HOME'')) cwd,
                                 ProcKill, ProcWait]\<rparr>"
    using assms(5,6)
    by (auto simp: CombinedOutput_def own_end_def end_time_def own_writes_def started_def
               wait_error_def exec_calls_def outlives_def descendants_def program_writes_def
               timeout_value Let_def
             split: program.splits option.splits)
  show ?thesis
    by (simp add: run_executable[OF assms(1-4)] w r ctx_Err_def)
qed

text \<open>
  C3. The claim does not hold of a hook that has started a process of its own. Take the
  script \<open>forking_hook\<close>, found and executable, with the switch off and a caller's context
  that never ends. Its own process outlives the timeout and is killed at 5 s, but the
  subshell it started is not: \<open>RunStartupHook\<close> returns only when the subshell ends, at
  6 s, and the output it returns has the \<open>done\<close> that the subshell wrote after the timeout.
  With a background command that never ends (\<open>daemon_hook\<close>), \<open>RunStartupHook\<close> never
  returns.
\<close>

theorem hook_with_descendant_outlives_kill:
  "outlives forking_hook startupHookTimeout
   \<and> RunStartupHook (machine '''' True 0x1ED forking_hook) None ''/srv''
       = Some \<lparr>result = Some \<lparr>Output = ''branch: maindone'',
                                Err = Some (Errorf_v ''hook timed out after '' 5000000000)\<rparr>,
               calls = [CallGetenv ''SHELLEY_DISABLE_STARTUP_HOOK'', CallGetenv ''HOME'',
                        CallStat ''/home/u/.config/shelley/on-conversation-start'',
                        CallStat ''/home/u/.config/shelley/on-conversation-start'',
                        ProcStart ''/home/u/.config/shelley/on-conversation-start'' ''/srv'',
                        ProcKill, ProcWait]\<rparr>
   \<and> map_option returned_at
         (CombinedOutput (machine '''' True 0x1ED forking_hook)
            (WithTimeout None startupHookTimeout)
            \<lparr>Path = ''/home/u/.config/shelley/on-conversation-start'', Dir = ''/srv''\<rparr>)
       = Some 6000000000
   \<and> outlives daemon_hook startupHookTimeout
   \<and> RunStartupHook (machine '''' True 0x1ED daemon_hook) None ''/srv'' = None"
proof -
  have x: "(0x1ED :: 32 word) AND exec_bits \<noteq> 0"
    by (simp add: exec_bits_def)
  have a: "outlives forking_hook startupHookTimeout"
    by (simp add: outlives_def forking_hook_def timeout_value)
  have b: "RunStartupHook (machine '''' True 0x1ED forking_hook) None ''/srv''
       = Some \<lparr>result = Some \<lparr>Output = ''branch: maindone'',
                                Err = Some (Errorf_v ''hook timed out after '' 5000000000)\<rparr>,
               calls = [CallGetenv ''SHELLEY_DISABLE_STARTUP_HOOK'', CallGetenv ''HOME'',
                        CallStat ''/home/u/.config/shelley/on-conversation-start'',
                        CallStat ''/home/u/.config/shelley/on-conversation-start'',
                        ProcStart ''/home/u/.config/shelley/on-conversation-start'' ''/srv'',
                        ProcKill, ProcWait]\<rparr>"
    using x
    by (simp add: run_executable[of _ "\<lparr>Mode = 0x1ED\<rparr>"] machine_simps hook_path_home_u
          exec_defs forking_hook_def timeout_value)
  have c: "map_option returned_at
         (CombinedOutput (machine '''' True 0x1ED forking_hook)
            (WithTimeout None startupHookTimeout)
            \<lparr>Path = ''/home/u/.config/shelley/on-conversation-start'', Dir = ''/srv''\<rparr>)
       = Some 6000000000"
    by (simp add: machine_simps exec_defs forking_hook_def timeout_value)
  have d: "outlives daemon_hook startupHookTimeout"
    by (simp add: outlives_def daemon_hook_def timeout_value)
  have e: "RunStartupHook (machine '''' True 0x1ED daemon_hook) None ''/srv'' = None"
    using x
    by (simp add: run_executable[of _ "\<lparr>Mode = 0x1ED\<rparr>"] machine_simps hook_path_home_u
          exec_defs daemon_hook_def timeout_value)
  from a b c d e show ?thesis
    by (intro conjI)
qed

text \<open>
  C6, as the code has it. Let the disable switch be off and the hook file exist at the
  resolved path. If none of its execute bits is set, \<open>RunStartupHook\<close> returns a result
  whose error reads \<open>hook is not executable: \<close> followed by the path, so its text contains
  \<open>not executable\<close>, and no process is started. And the result carries this error exactly
  when none of the execute bits is set.
\<close>

theorem not_executable_when_enabled:
  assumes "Getenv os ''SHELLEY_DISABLE_STARTUP_HOOK'' = ''''"
    and "Getenv os ''HOME'' \<noteq> ''''"
    and "Stat os (hook_path (Getenv os ''HOME'')) = Inr info"
  shows "(Mode info AND exec_bits = 0 \<longrightarrow>
            (\<exists>h. RunStartupHook os ctx cwd = Some h
                \<and> result h
                    = Some \<lparr>Output = '''',
                             Err = Some (Errorf_s ''hook is not executable: ''
                                           (hook_path (Getenv os ''HOME'')))\<rparr>
                \<and> \<not> list_ex is_ProcStart (calls h))
          \<and> sublist ''not executable''
                (Error_text lib_text (Errorf_s ''hook is not executable: ''
                                        (hook_path (Getenv os ''HOME'')))))
       \<and> ((\<exists>h r p. RunStartupHook os ctx cwd = Some h \<and> result h = Some r
                  \<and> Err r = Some (Errorf_s ''hook is not executable: '' p))
            \<longleftrightarrow> Mode info AND exec_bits = 0)"
proof (cases "Mode info AND exec_bits = 0")
  case True
  from run_not_executable[OF assms True, of ctx cwd] not_executable_text True
  show ?thesis by simp
next
  case False
  from executable_never_not_executable[OF assms False] False
  show ?thesis by blast
qed

theorem not_executable_when_enabled_witness:
  "RunStartupHook (machine '''' True 0x1A4 slow_hook) None ''/srv''
     = Some \<lparr>result = Some \<lparr>Output = '''',
                Err = Some (Errorf_s ''hook is not executable: ''
                              ''/home/u/.config/shelley/on-conversation-start'')\<rparr>,
             calls = [CallGetenv ''SHELLEY_DISABLE_STARTUP_HOOK'', CallGetenv ''HOME'',
                      CallStat ''/home/u/.config/shelley/on-conversation-start'',
                      CallStat ''/home/u/.config/shelley/on-conversation-start'']\<rparr>"
  using not_executable_when_enabled
          [of "machine '''' True 0x1A4 slow_hook" "\<lparr>Mode = 0x1A4\<rparr>" None "''/srv''"]
        run_not_executable
          [of "machine '''' True 0x1A4 slow_hook" "\<lparr>Mode = 0x1A4\<rparr>" None "''/srv''"]
  by (simp add: machine_simps hook_path_home_u exec_bits_def)

text \<open>
  C6, as the claim has it, fails when the disable switch is on: the file is there, none of
  its execute bits is set (mode \<open>0644\<close>), and \<open>RunStartupHook\<close> returns \<open>nil\<close>, not a result
  with an error.
\<close>

theorem not_executable_but_disabled_counterexample:
  "Stat (machine ''1'' True 0x1A4 slow_hook)
        (hook_path (Getenv (machine ''1'' True 0x1A4 slow_hook) ''HOME''))
     = Inr \<lparr>Mode = 0x1A4\<rparr>
   \<and> (0x1A4 :: 32 word) AND exec_bits = 0
   \<and> RunStartupHook (machine ''1'' True 0x1A4 slow_hook) None ''/srv''
       = Some \<lparr>result = None, calls = [CallGetenv ''SHELLEY_DISABLE_STARTUP_HOOK'']\<rparr>"
  by (simp add: machine_simps hook_path_home_u exec_bits_def RunStartupHook_def)

text \<open>
  C7. When \<open>os.Stat\<close> finds no file at the lookup path, which is \<open>.config/shelley/\<close>
  \<open>on-conversation-start\<close> under the home directory, \<open>RunStartupHook\<close> returns \<open>nil\<close>:
  no process is started, there is no result to carry an error, and the caller, given
  \<open>nil\<close>, emits no \<open>startup-hook\<close> message.
\<close>

theorem absent_hook_returns_nil:
  assumes "Stat os (hook_path (Getenv os ''HOME'')) = Inl e"
  shows "\<exists>h. RunStartupHook os ctx cwd = Some h
           \<and> result h = None
           \<and> \<not> list_ex is_ProcStart (calls h)
           \<and> startup_hook_message lib_text (result h) = None"
  using assms
  by (simp add: RunStartupHook_def findStartupHook_def UserHomeDir_def Let_def
        startup_hook_message_def)

theorem absent_hook_returns_nil_witness:
  "RunStartupHook (machine '''' False 0 slow_hook) None ''/srv''
     = Some \<lparr>result = None,
             calls = [CallGetenv ''SHELLEY_DISABLE_STARTUP_HOOK'', CallGetenv ''HOME'',
                      CallStat ''/home/u/.config/shelley/on-conversation-start'']\<rparr>
   \<and> startup_hook_message (\<lambda>k args. concat args) None = None"
  using absent_hook_returns_nil
          [of "machine '''' False 0 slow_hook"
              "LibError PathError [''stat'', ''/home/u/.config/shelley/on-conversation-start'',
                                   ''no such file or directory'']"
              None "''/srv''" "\<lambda>k args. concat args"]
  by (simp add: machine_simps hook_path_home_u RunStartupHook_def findStartupHook_def
        UserHomeDir_def startup_hook_message_def)

text \<open>
  C8. When \<open>SHELLEY_DISABLE_STARTUP_HOOK\<close> is set to a non-empty value, \<open>RunStartupHook\<close>
  returns \<open>nil\<close> whatever else holds, and reading that variable is the only call it makes:
  the hook is not looked up, not stat-ed and not run.
\<close>

theorem disabled_hook_returns_nil:
  "Getenv os ''SHELLEY_DISABLE_STARTUP_HOOK'' \<noteq> '''' \<Longrightarrow>
   RunStartupHook os ctx cwd
     = Some \<lparr>result = None, calls = [CallGetenv ''SHELLEY_DISABLE_STARTUP_HOOK'']\<rparr>"
  by (simp add: RunStartupHook_def)

theorem disabled_hook_returns_nil_witness:
  "RunStartupHook (machine ''1'' True 0x1ED slow_hook) None ''/srv''
     = Some \<lparr>result = None, calls = [CallGetenv ''SHELLEY_DISABLE_STARTUP_HOOK'']\<rparr>"
  using disabled_hook_returns_nil [of "machine ''1'' True 0x1ED slow_hook" None "''/srv''"]
  by (simp add: machine_simps)

section \<open>Properties of the message store\<close>

subsection \<open>The closed set of types\<close>

lemma insert_message_Inr:
  assumes "insert_message now v d = Inr d'"
  shows "\<exists>r. d' = d\<lparr>messages := messages d @ [r]\<rparr>
           \<and> type r \<in> set message_types
           \<and> type_value v = Some (type r)
           \<and> conversation_id_value v = Some (conversation_id r)
           \<and> sequence_id_value v = Some (sequence_id r)"
  using assms
  by (auto simp: insert_message_def split: option.splits created_at_value.splits if_splits)

lemma insert_message_rejects:
  assumes "type_value v \<notin> set (map Some message_types)"
  shows "\<exists>k. insert_message now v d = Inl (ConstraintViolation k)"
  using assms
  by (auto simp: insert_message_def split: option.splits created_at_value.splits)

lemma insert_message_types:
  assumes "insert_message now v d = Inr d'"
    and "\<forall>r\<in>set (messages d). type r \<in> set message_types"
  shows "\<forall>r\<in>set (messages d'). type r \<in> set message_types"
  using insert_message_Inr[OF assms(1)] assms(2) by auto

lemma insert_all_types:
  "insert_all now vs d = Inr d' \<Longrightarrow> \<forall>r\<in>set (messages d). type r \<in> set message_types
   \<Longrightarrow> \<forall>r\<in>set (messages d'). type r \<in> set message_types"
proof (induction vs arbitrary: d)
  case Nil
  then show ?case by simp
next
  case (Cons v vs)
  from Cons.prems(1) obtain d1 where s: "insert_message now v d = Inr d1"
    and rest: "insert_all now vs d1 = Inr d'"
    by (auto split: sum.splits)
  from insert_message_types[OF s Cons.prems(2)] Cons.IH[OF rest] show ?case by blast
qed

lemma migration_011_types:
  "migration_011 now d0 = Inr d \<Longrightarrow> \<forall>r\<in>set (messages d). type r \<in> set message_types"
  unfolding migration_011_def by (erule insert_all_types) simp

lemma after_inserts_types:
  "\<forall>r\<in>set (messages d). type r \<in> set message_types
   \<Longrightarrow> \<forall>r\<in>set (messages (after_inserts ins d)). type r \<in> set message_types"
proof (induction ins arbitrary: d)
  case Nil
  then show ?case by simp
next
  case (Cons i ins)
  obtain now v where i: "i = (now, v)" by (cases i) auto
  show ?case
  proof (cases "insert_message now v d")
    case (Inl e)
    with Cons i show ?thesis by simp
  next
    case (Inr d1)
    from insert_message_types[OF Inr Cons.prems] Cons.IH have
      "\<forall>r\<in>set (messages (after_inserts ins d1)). type r \<in> set message_types" by blast
    with Inr i show ?thesis by simp
  qed
qed

text \<open>
  C2. An insert into \<open>messages\<close> whose type is not one of \<open>user\<close>, \<open>agent\<close>, \<open>tool\<close>,
  \<open>system\<close>, \<open>error\<close>, \<open>gitinfo\<close>, \<open>startup-hook\<close> fails with a constraint violation and
  leaves the table as it was. So every row of the table has a type of the closed set,
  after any series of inserts into the empty table and after any series of inserts that
  follows the migration.
\<close>

theorem message_type_closed:
  "(type_value v \<notin> set (map Some message_types) \<longrightarrow>
      (\<exists>k. insert_message now v d = Inl (ConstraintViolation k))
      \<and> after_inserts [(now, v)] d = d)
   \<and> (\<forall>r\<in>set (messages (after_inserts ins
                 \<lparr>conversations = cs, messages = [], foreign_keys = fk\<rparr>)).
         type r \<in> set message_types)
   \<and> (migration_011 now0 d0 = Inr d1 \<longrightarrow>
        (\<forall>r\<in>set (messages (after_inserts ins d1)). type r \<in> set message_types))"
proof -
  have a: "type_value v \<notin> set (map Some message_types) \<longrightarrow>
      (\<exists>k. insert_message now v d = Inl (ConstraintViolation k))
      \<and> after_inserts [(now, v)] d = d"
    using insert_message_rejects[of v now d] by auto
  have b: "\<forall>r\<in>set (messages (after_inserts ins
                 \<lparr>conversations = cs, messages = [], foreign_keys = fk\<rparr>)).
         type r \<in> set message_types"
    by (rule after_inserts_types) simp
  have c: "migration_011 now0 d0 = Inr d1 \<longrightarrow>
        (\<forall>r\<in>set (messages (after_inserts ins d1)). type r \<in> set message_types)"
    using after_inserts_types[OF migration_011_types] by blast
  from a b c show ?thesis by blast
qed

lemmas store_defs = insert_message_def message_types_def row_def empty_store_def
  old_store_def migration_011_def selected_def

lemma migration_011_old_store: "migration_011 ''10:00'' old_store = Inr old_store"
  by (simp add: store_defs)

theorem message_type_closed_witness:
  "insert_message ''09:00'' (row ''m1'' ''note'') empty_store = Inl (ConstraintViolation Check)
   \<and> map type (messages (after_inserts
                          [(''09:00'', row ''m1'' ''note''), (''09:01'', row ''m2'' ''tool'')]
                          empty_store))
       = [''tool'']
   \<and> map type (messages (after_inserts
                          [(''09:00'', row ''m1'' ''note''), (''09:01'', row ''m2'' ''tool'')]
                          old_store))
       = [''gitinfo'', ''tool'']"
  using message_type_closed
          [of "row ''m1'' ''note''" "''09:00''" empty_store
              "[(''09:00'', row ''m1'' ''note''), (''09:01'', row ''m2'' ''tool'')]"
              "[''c1'', ''c2'']" True "''10:00''" old_store old_store]
        migration_011_old_store
  by (simp add: store_defs)

subsection \<open>Sequence ids\<close>

lemma Append_sequence_ids:
  assumes "Append first now c m d = Inr d'"
  shows "sequence_ids d' c' =
           (if c' = c then sequence_ids d c @ [next_sequence_id first d c]
            else sequence_ids d c')"
  using insert_message_Inr[OF assms[unfolded Append_def]]
  by (auto simp: sequence_ids_def)

lemma Max_upto: "i \<le> j \<Longrightarrow> Max (set [i..j]) = j"
  by (auto intro!: Max_eqI)

lemma next_of_contiguous:
  assumes "sequence_ids d c = [first..first + int n - 1]"
  shows "next_sequence_id first d c = first + int n"
proof (cases n)
  case 0
  with assms show ?thesis by (simp add: next_sequence_id_def)
next
  case (Suc k)
  with assms have "sequence_ids d c \<noteq> []" by simp
  moreover have "Max (set [first..first + int n - 1]) = first + int n - 1"
    using Suc by (intro Max_upto) simp
  ultimately show ?thesis using assms by (simp add: next_sequence_id_def)
qed

lemma upto_extend:
  "[first..first + int n - 1] @ [first + int n] = [first..first + int (Suc n) - 1]"
proof -
  have "[first..first + int n] = [first..first + int n - 1] @ [first + int n]"
    by (rule upto_rec2) simp
  then show ?thesis by (simp add: add.commute add.left_commute)
qed

text \<open>
  The invariant, from any store in which the ids of the conversation already are a run of
  \<open>n\<close> ids from \<open>first\<close>.
\<close>

lemma store_after_sequence_ids:
  assumes "sequence_ids d c = [first..first + int n - 1]"
  shows "sequence_ids (store_after first ops d) c
           = [first..first + int (n + appended first c ops d) - 1]"
  using assms
proof (induction ops arbitrary: d n)
  case Nil
  then show ?case by simp
next
  case (Cons op ops)
  obtain now c' m where op: "op = (now, c', m)" by (cases op) auto
  show ?case
  proof (cases "Append first now c' m d")
    case (Inl e)
    with Cons op show ?thesis by simp
  next
    case (Inr d1)
    show ?thesis
    proof (cases "c' = c")
      case True
      have "sequence_ids d1 c = [first..first + int (Suc n) - 1]"
        using Append_sequence_ids[OF Inr, of c] True Cons.prems
              next_of_contiguous[OF Cons.prems] upto_extend[of first n]
        by simp
      from Cons.IH[OF this] Inr op True show ?thesis by simp
    next
      case False
      have "sequence_ids d1 c = [first..first + int n - 1]"
        using Append_sequence_ids[OF Inr, of c] False Cons.prems by simp
      from Cons.IH[OF this] Inr op False show ?thesis by simp
    qed
  qed
qed

text \<open>
  C1. Start from a store without messages and let any appends to any conversations
  happen in any interleaving, some of them failing. For every conversation, the sequence
  ids of its messages, in the order they were stored, are \<open>first, first + 1, ...\<close> up to
  \<open>first + N - 1\<close>, where \<open>N\<close> is the number of appends to that conversation that
  succeeded: a run without gaps and without duplicates, which is \<open>1..N\<close> for \<open>first = 1\<close>
  and \<open>0..N-1\<close> for \<open>first = 0\<close>.
\<close>

theorem sequence_ids_contiguous:
  "sequence_ids
     (store_after first ops \<lparr>conversations = cs, messages = [], foreign_keys = fk\<rparr>) c
   = [first .. first + int (appended first c ops
                              \<lparr>conversations = cs, messages = [], foreign_keys = fk\<rparr>) - 1]
   \<and> set (sequence_ids
            (store_after first ops \<lparr>conversations = cs, messages = [], foreign_keys = fk\<rparr>) c)
     = {first .. first + int (appended first c ops
                                \<lparr>conversations = cs, messages = [], foreign_keys = fk\<rparr>) - 1}
   \<and> distinct (sequence_ids
       (store_after first ops \<lparr>conversations = cs, messages = [], foreign_keys = fk\<rparr>) c)"
proof -
  have "sequence_ids
     (store_after first ops \<lparr>conversations = cs, messages = [], foreign_keys = fk\<rparr>) c
   = [first .. first + int (appended first c ops
                              \<lparr>conversations = cs, messages = [], foreign_keys = fk\<rparr>) - 1]"
    using store_after_sequence_ids
            [of "\<lparr>conversations = cs, messages = [], foreign_keys = fk\<rparr>" c first 0 ops]
    by (simp add: sequence_ids_def)
  then show ?thesis by simp
qed

lemmas history_defs = history_def message_of_def Append_def next_sequence_id_def
  sequence_ids_def insert_message_def message_types_def empty_store_def

theorem sequence_ids_contiguous_witness:
  "sequence_ids (store_after 1 history empty_store) ''c1'' = [1, 2]
   \<and> appended 1 ''c1'' history empty_store = 2
   \<and> sequence_ids (store_after 0 history empty_store) ''c2'' = [0, 1]
   \<and> appended 0 ''c2'' history empty_store = 2"
  using sequence_ids_contiguous [of 1 history "[''c1'', ''c2'']" True "''c1''"]
        sequence_ids_contiguous [of 0 history "[''c1'', ''c2'']" True "''c2''"]
  by (simp add: history_defs)

end
